theory Spec2Isabelle
  imports Complex_Main "HOL-Library.Sublist" "HOL-Library.AList" "HOL-Library.Word"
begin

section \<open>Tab registry (ExtensionManager.ts, Tab State Bridge)\<close>

text \<open>
  \<^verbatim>\<open>interface TabInfo\<close>: the \<^verbatim>\<open>id\<close> field is called \<open>tabId\<close> here, the two
  string literals of \<^verbatim>\<open>status\<close> are the constructors of a datatype, and the numbers
  \<^verbatim>\<open>windowId\<close> and \<^verbatim>\<open>index\<close> are integers.
\<close>

datatype status = loading | complete

record TabInfo =
  tabId :: string
  url :: string
  title :: string
  active :: bool
  windowId :: int
  index :: int
  favIconUrl :: "string option"
  status :: status
  incognito :: bool

text \<open>
  \<^verbatim>\<open>Partial<TabInfo> & { id: string }\<close>: every property but \<^verbatim>\<open>id\<close> may be absent
  (\<open>None\<close>). A property that is present with the value \<^verbatim>\<open>undefined\<close> is not modelled.
\<close>

record PartialTabInfo =
  p_id :: string
  p_url :: "string option"
  p_title :: "string option"
  p_active :: "bool option"
  p_windowId :: "int option"
  p_index :: "int option"
  p_favIconUrl :: "string option"
  p_status :: "status option"
  p_incognito :: "bool option"

text \<open>
  \<^verbatim>\<open>tabRegistry: Map<string, TabInfo>\<close> is an association list in insertion order, the
  order in which \<^verbatim>\<open>forEach\<close> and \<^verbatim>\<open>values()\<close> visit a JavaScript Map.
\<close>

type_synonym registry = "(string \<times> TabInfo) list"

record TabState =
  tabRegistry :: registry
  activeTabId :: "string option"

definition emptyTabState :: TabState where
  "emptyTabState = \<lparr>tabRegistry = [], activeTabId = None\<rparr>"

text \<open>\<^verbatim>\<open>s || d\<close> on an optional string: an absent and an empty string are both falsy.\<close>

definition strOr :: "string option \<Rightarrow> string \<Rightarrow> string" where
  "strOr s d = (case s of None \<Rightarrow> d | Some v \<Rightarrow> if v = [] then d else v)"

text \<open>\<^verbatim>\<open>Object.assign(existing, tabInfo)\<close>: every property present in \<open>tabInfo\<close> overwrites.\<close>

definition assign :: "TabInfo \<Rightarrow> PartialTabInfo \<Rightarrow> TabInfo" where
  "assign existing tabInfo =
     \<lparr>tabId = p_id tabInfo,
      url = (case p_url tabInfo of Some v \<Rightarrow> v | None \<Rightarrow> url existing),
      title = (case p_title tabInfo of Some v \<Rightarrow> v | None \<Rightarrow> title existing),
      active = (case p_active tabInfo of Some v \<Rightarrow> v | None \<Rightarrow> active existing),
      windowId = (case p_windowId tabInfo of Some v \<Rightarrow> v | None \<Rightarrow> windowId existing),
      index = (case p_index tabInfo of Some v \<Rightarrow> v | None \<Rightarrow> index existing),
      favIconUrl = (case p_favIconUrl tabInfo of Some v \<Rightarrow> Some v | None \<Rightarrow> favIconUrl existing),
      status = (case p_status tabInfo of Some v \<Rightarrow> v | None \<Rightarrow> status existing),
      incognito = (case p_incognito tabInfo of Some v \<Rightarrow> v | None \<Rightarrow> incognito existing)\<rparr>"

text \<open>The record that \<^verbatim>\<open>updateTab\<close> stores for an identifier it does not know yet.\<close>

definition newTab :: "PartialTabInfo \<Rightarrow> nat \<Rightarrow> TabInfo" where
  "newTab tabInfo n =
     \<lparr>tabId = p_id tabInfo,
      url = strOr (p_url tabInfo) [],
      title = strOr (p_title tabInfo) ''New Tab'',
      active = (p_active tabInfo = Some True),
      windowId = 1,
      index = int n,
      favIconUrl = p_favIconUrl tabInfo,
      status = (case p_status tabInfo of Some v \<Rightarrow> v | None \<Rightarrow> complete),
      incognito = False\<rparr>"

definition updateTab :: "PartialTabInfo \<Rightarrow> TabState \<Rightarrow> TabState" where
  "updateTab tabInfo s =
     (let reg = (case map_of (tabRegistry s) (p_id tabInfo) of
                   Some existing \<Rightarrow>
                     map (\<lambda>(k, tab). if k = p_id tabInfo then (k, assign tab tabInfo) else (k, tab))
                       (tabRegistry s)
                 | None \<Rightarrow>
                     tabRegistry s @ [(p_id tabInfo, newTab tabInfo (length (tabRegistry s)))])
      in if p_active tabInfo = Some True
         then \<lparr>tabRegistry =
                 map (\<lambda>(k, tab). if k \<noteq> p_id tabInfo then (k, tab\<lparr>active := False\<rparr>) else (k, tab)) reg,
               activeTabId = Some (p_id tabInfo)\<rparr>
         else \<lparr>tabRegistry = reg, activeTabId = activeTabId s\<rparr>)"

text \<open>The reindexing loop of \<^verbatim>\<open>removeTab\<close>: \<^verbatim>\<open>forEach(tab => { tab.index = idx++ })\<close>.\<close>

fun reindex :: "nat \<Rightarrow> registry \<Rightarrow> registry" where
  "reindex idx [] = []"
| "reindex idx ((k, tab) # rest) = (k, tab\<lparr>index := int idx\<rparr>) # reindex (Suc idx) rest"

definition removeTab :: "string \<Rightarrow> TabState \<Rightarrow> TabState" where
  "removeTab tid s =
     (let remaining = filter (\<lambda>(k, tab). k \<noteq> tid) (tabRegistry s);
          act = (if activeTabId s = Some tid
                 then (if remaining \<noteq> [] then Some (tabId (snd (last remaining))) else None)
                 else activeTabId s)
      in \<lparr>tabRegistry = reindex 0 remaining, activeTabId = act\<rparr>)"

definition setActiveTab :: "string \<Rightarrow> TabState \<Rightarrow> TabState" where
  "setActiveTab tid s =
     \<lparr>tabRegistry = map (\<lambda>(k, tab). (k, tab\<lparr>active := (k = tid)\<rparr>)) (tabRegistry s),
      activeTabId = Some tid\<rparr>"

text \<open>
  The three synchronisation messages of the renderer (\<^verbatim>\<open>extension:tab-updated\<close>,
  \<^verbatim>\<open>extension:tab-activated\<close>, \<^verbatim>\<open>extension:tab-removed\<close>) and a run of them.
\<close>

datatype tabOp = Upsert PartialTabInfo | SetActive string | Remove string

fun applyTabOp :: "TabState \<Rightarrow> tabOp \<Rightarrow> TabState" where
  "applyTabOp s (Upsert tabInfo) = updateTab tabInfo s"
| "applyTabOp s (SetActive tid) = setActiveTab tid s"
| "applyTabOp s (Remove tid) = removeTab tid s"

definition runTabOps :: "tabOp list \<Rightarrow> TabState" where
  "runTabOps ops = foldl applyTabOp emptyTabState ops"

definition activeCount :: "TabState \<Rightarrow> nat" where
  "activeCount s = length (filter (\<lambda>(k, tab). active tab) (tabRegistry s))"

definition indices :: "TabState \<Rightarrow> int list" where
  "indices s = map (\<lambda>(k, tab). index tab) (tabRegistry s)"

definition onlyId :: "string \<Rightarrow> PartialTabInfo" where
  "onlyId tid = \<lparr>p_id = tid, p_url = None, p_title = None, p_active = None, p_windowId = None,
     p_index = None, p_favIconUrl = None, p_status = None, p_incognito = None\<rparr>"

text \<open>The invariant of the registry: keys are unique and at most one record is active.\<close>

definition tabInv :: "TabState \<Rightarrow> bool" where
  "tabInv s \<longleftrightarrow> distinct (map fst (tabRegistry s)) \<and> activeCount s \<le> 1"


section \<open>Platform primitives\<close>

text \<open>
  The value of \<^verbatim>\<open>new URL(url)\<close>, as far as the code reads it.
\<close>

record URL =
  protocol :: string
  hostname :: string
  pathname :: string
  search :: string

text \<open>
  The numbers of JavaScript: \<open>NaN\<close>, the two infinities, and the finite values, which are
  rationals.
\<close>

datatype jsNumber = NaN | MinusInfinity | Finite rat | PlusInfinity

text \<open>
  The primitives of the JavaScript platform that the code calls and that are not part of
  this repository are parameters of the model:
  \<^item> \<open>newURL url\<close> is \<^verbatim>\<open>new URL(url)\<close>, \<open>None\<close> when the constructor throws;
  \<^item> \<open>regExpTest src s\<close> is \<^verbatim>\<open>new RegExp(src).test(s)\<close>, \<open>None\<close> when the constructor
    throws on \<open>src\<close>;
  \<^item> \<open>toNumber s\<close> is \<^verbatim>\<open>Number(s)\<close> and \<open>numberToString n\<close> is \<^verbatim>\<open>n.toString()\<close>;
  \<^item> \<open>sortWithNaN sizes\<close> is \<^verbatim>\<open>sizes.sort((a, b) => b - a)\<close> on an array that holds
    \<open>NaN\<close>: the comparator is not consistent there and the language leaves the order to
    the implementation;
  \<^item> \<open>toBase64 buf\<close> is \<^verbatim>\<open>buf.toString('base64')\<close>.
\<close>

record platform =
  newURL :: "string \<Rightarrow> URL option"
  regExpTest :: "string \<Rightarrow> string \<Rightarrow> bool option"
  toNumber :: "string \<Rightarrow> jsNumber"
  numberToString :: "jsNumber \<Rightarrow> string"
  sortWithNaN :: "jsNumber list \<Rightarrow> jsNumber list"
  toBase64 :: "string \<Rightarrow> string"


section \<open>Match patterns (matchesUrlPattern)\<close>

text \<open>\<^verbatim>\<open>s.replace(c, '')\<close> with a one-character string \<open>c\<close>: the first occurrence goes.\<close>

fun replaceFirst :: "char \<Rightarrow> string \<Rightarrow> string" where
  "replaceFirst c [] = []"
| "replaceFirst c (d # ds) = (if d = c then ds else d # replaceFirst c ds)"

text \<open>\<^verbatim>\<open>patternPath.replace(/\*/g, '.*')\<close>.\<close>

definition starToDotStar :: "string \<Rightarrow> string" where
  "starToDotStar s = concat (map (\<lambda>c. if c = CHR ''*'' then ''.*'' else [c]) s)"

text \<open>
  The characters that \<open>.\<close> does not match in a regular expression without flags, among
  the characters of \<open>string\<close>: line feed and carriage return.
\<close>

definition lineTerminator :: "char \<Rightarrow> bool" where
  "lineTerminator c \<longleftrightarrow> c = CHR 0x0A \<or> c = CHR 0x0D"

text \<open>
  \<^verbatim>\<open>pattern.match(/^(\*|https?|ftp|file):\/\/(\*|(?:\*\.)?[^/]*)\/(.*)$/)\<close>, giving the three
  groups. The pattern has to start with one of the schemes followed by \<open>://\<close>; the host
  group is then everything up to the first \<open>/\<close>, which has to be there (both host
  alternatives are followed by \<open>/\<close>, and \<open>[^/]*\<close> takes any character but \<open>/\<close>); the path
  group is the rest, which \<open>(.*)$\<close> accepts when it holds no line terminator.
\<close>

definition patternSchemes :: "string list" where
  "patternSchemes = [''*'', ''https'', ''http'', ''ftp'', ''file'']"

definition patternMatch :: "string \<Rightarrow> (string \<times> string \<times> string) option" where
  "patternMatch pattern =
     (case List.find (\<lambda>sc. prefix (sc @ ''://'') pattern) patternSchemes of
        None \<Rightarrow> None
      | Some scheme \<Rightarrow>
          (let rest = drop (length scheme + 3) pattern;
               host = takeWhile (\<lambda>c. c \<noteq> CHR ''/'') rest;
               tail = dropWhile (\<lambda>c. c \<noteq> CHR ''/'') rest
           in if tail = [] then None
              else if list_ex lineTerminator (tl tail) then None
              else Some (scheme, host, tl tail)))"

text \<open>
  The body of the loop of \<^verbatim>\<open>matchesUrlPattern\<close> for a pattern other than
  \<^verbatim>\<open><all_urls>\<close>: \<open>True\<close> where the code reaches \<^verbatim>\<open>return true\<close>, \<open>False\<close> where it
  reaches a \<^verbatim>\<open>continue\<close>, the one of the \<^verbatim>\<open>catch\<close> block included.
\<close>

definition patternMatchesUrl :: "platform \<Rightarrow> string \<Rightarrow> string \<Rightarrow> bool" where
  "patternMatchesUrl pf u pattern =
     (case patternMatch pattern of
        None \<Rightarrow> False
      | Some (scheme, host, patternPath) \<Rightarrow>
          (case newURL pf u of
             None \<Rightarrow> False
           | Some parsed \<Rightarrow>
               if scheme \<noteq> ''*'' \<and> scheme \<noteq> replaceFirst (CHR '':'') (protocol parsed) then False
               else if host \<noteq> ''*'' \<and>
                       (if prefix ''*.'' host
                        then hostname parsed \<noteq> drop 2 host
                             \<and> \<not> suffix (''.'' @ drop 2 host) (hostname parsed)
                        else hostname parsed \<noteq> host)
               then False
               else (case regExpTest pf (''^/'' @ starToDotStar patternPath @ ''$'')
                            (pathname parsed @ search parsed) of
                       None \<Rightarrow> False
                     | Some b \<Rightarrow> b)))"

fun matchesUrlPattern :: "platform \<Rightarrow> string \<Rightarrow> string list \<Rightarrow> bool" where
  "matchesUrlPattern pf u [] = False"
| "matchesUrlPattern pf u (pattern # patterns) =
     (if pattern = ''<all_urls>'' then True
      else if patternMatchesUrl pf u pattern then True
      else matchesUrlPattern pf u patterns)"


section \<open>What is known of the platform\<close>

text \<open>
  The concrete statements below need the values of some primitives at some arguments. Each
  of the following functions gives the value of a primitive on a fragment of its arguments,
  where the standard fixes it, and \<open>None\<close> on every other argument, about which it says
  nothing.

  \<open>plainURL\<close>, after the URL standard, for plain URLs: scheme \<open>http\<close> or \<open>https\<close>, a host of
  lower-case letters and dots that starts with a letter, and a path of lower-case letters
  and slashes, with no credentials, port, query or fragment. On these the URL parser
  changes nothing: the host and the path are returned as written, and an empty path is
  \<open>/\<close>.
\<close>

definition lowerLetter :: "char \<Rightarrow> bool" where
  "lowerLetter c \<longleftrightarrow> c \<in> set ''abcdefghijklmnopqrstuvwxyz''"

definition plainURL :: "string \<Rightarrow> URL option" where
  "plainURL u =
     (case List.find (\<lambda>sc. prefix (sc @ ''://'') u) [''https'', ''http''] of
        None \<Rightarrow> None
      | Some scheme \<Rightarrow>
          (let rest = drop (length scheme + 3) u;
               host = takeWhile (\<lambda>c. c \<noteq> CHR ''/'') rest;
               path = dropWhile (\<lambda>c. c \<noteq> CHR ''/'') rest
           in if host \<noteq> [] \<and> lowerLetter (hd host)
                 \<and> list_all (\<lambda>c. lowerLetter c \<or> c = CHR ''.'') host
                 \<and> list_all (\<lambda>c. lowerLetter c \<or> c = CHR ''/'') path
              then Some \<lparr>protocol = scheme @ '':'', hostname = host,
                         pathname = (if path = [] then ''/'' else path), search = []\<rparr>
              else None))"

text \<open>
  \<open>plainRegExpTest\<close>, after the regular expressions of ECMAScript, for the sources that a
  match-pattern path without special characters gives: \<open>^\<close>, then literal characters and
  \<open>.*\<close>, then \<open>$\<close>. A literal matches itself, \<open>.*\<close> matches any run of characters that
  holds no line terminator, and the anchors make the match cover the whole string.
\<close>

datatype globToken = Lit char | AnyRun

definition regExpSpecial :: "char \<Rightarrow> bool" where
  "regExpSpecial c \<longleftrightarrow> c = CHR 0x5C \<or> c \<in> set ''^$.|?*+()[]{}''"

fun globTokens :: "string \<Rightarrow> globToken list option" where
  "globTokens [] = Some []"
| "globTokens [c] = (if regExpSpecial c then None else Some [Lit c])"
| "globTokens (c # d # ds) =
     (if c = CHR ''.'' \<and> d = CHR ''*'' then map_option ((#) AnyRun) (globTokens ds)
      else if regExpSpecial c then None
      else map_option ((#) (Lit c)) (globTokens (d # ds)))"

fun globMatch :: "globToken list \<Rightarrow> string \<Rightarrow> bool" where
  "globMatch [] s = (s = [])"
| "globMatch (Lit c # ts) [] = False"
| "globMatch (Lit c # ts) (d # ds) = (c = d \<and> globMatch ts ds)"
| "globMatch (AnyRun # ts) [] = globMatch ts []"
| "globMatch (AnyRun # ts) (d # ds) =
     (globMatch ts (d # ds) \<or> (\<not> lineTerminator d \<and> globMatch (AnyRun # ts) ds))"

definition plainRegExpTest :: "string \<Rightarrow> string \<Rightarrow> bool option" where
  "plainRegExpTest src s =
     (if 2 \<le> length src \<and> hd src = CHR ''^'' \<and> last src = CHR ''$''
      then map_option (\<lambda>ts. globMatch ts s) (globTokens (butlast (tl src)))
      else None)"

text \<open>
  \<open>digitsNumber\<close> and \<open>naturalToString\<close>: \<^verbatim>\<open>Number\<close> reads a string of at most fifteen
  decimal digits as the natural number it writes (the empty string as 0), and
  \<^verbatim>\<open>toString\<close> writes a natural number below ten to the fifteenth in decimal digits without
  leading zeros.
\<close>

definition digits :: string where
  "digits = ''0123456789''"

definition digitValue :: "char \<Rightarrow> nat" where
  "digitValue c = length (takeWhile (\<lambda>d. d \<noteq> c) digits)"

definition digitsNumber :: "string \<Rightarrow> jsNumber option" where
  "digitsNumber s =
     (if list_all (\<lambda>c. c \<in> set digits) s \<and> length s \<le> 15
      then Some (Finite (of_nat (foldl (\<lambda>n c. 10 * n + digitValue c) 0 s)))
      else None)"

fun decimal :: "nat \<Rightarrow> string" where
  "decimal n = (if n < 10 then [digits ! n] else decimal (n div 10) @ [digits ! (n mod 10)])"

definition naturalToString :: "jsNumber \<Rightarrow> string option" where
  "naturalToString x =
     (case x of
        Finite q \<Rightarrow>
          (if 0 \<le> q \<and> q < 1000000000000000 \<and> q = of_int \<lfloor>q\<rfloor>
           then Some (decimal (nat \<lfloor>q\<rfloor>)) else None)
      | _ \<Rightarrow> None)"

text \<open>
  \<open>known pf\<close> is the platform \<open>pf\<close> with these values in the place of its own: it stands
  for any platform that follows the standards on the fragments.
\<close>

definition known :: "platform \<Rightarrow> platform" where
  "known pf =
     pf\<lparr>newURL := (\<lambda>u. case plainURL u of Some parsed \<Rightarrow> Some parsed | None \<Rightarrow> newURL pf u),
        regExpTest := (\<lambda>src s. case plainRegExpTest src s of
                                 Some b \<Rightarrow> Some b | None \<Rightarrow> regExpTest pf src s),
        toNumber := (\<lambda>s. case digitsNumber s of Some n \<Rightarrow> n | None \<Rightarrow> toNumber pf s),
        numberToString := (\<lambda>n. case naturalToString n of
                                  Some s \<Rightarrow> s | None \<Rightarrow> numberToString pf n)\<rparr>"

text \<open>
  A platform of which nothing is said: the closed statements below are about
  \<open>known elsewhere\<close>, and so depend on the fragments alone.
\<close>

definition elsewhere :: platform where
  "elsewhere = undefined"


section \<open>Files\<close>

text \<open>
  The disk as the code reads it: a path holds no file, a file whose read throws, or a file
  with its content. \<^verbatim>\<open>fs.existsSync\<close> never throws. Paths are the keys: the file system
  tells upper case from lower case and has no links, so that two paths that differ after
  normalisation are two files.
\<close>

datatype diskFile = Unreadable | Content string

type_synonym files = "string \<rightharpoonup> diskFile"

definition existsSync :: "files \<Rightarrow> string \<Rightarrow> bool" where
  "existsSync fs p \<longleftrightarrow> fs p \<noteq> None"

text \<open>\<^verbatim>\<open>fs.readFileSync\<close>; \<open>None\<close> when it throws.\<close>

definition readFileSync :: "files \<Rightarrow> string \<Rightarrow> string option" where
  "readFileSync fs p = (case fs p of Some (Content text) \<Rightarrow> Some text | _ \<Rightarrow> None)"

text \<open>\<^verbatim>\<open>s.split('/')\<close> and \<^verbatim>\<open>segments.join('/')\<close>.\<close>

fun splitSlash :: "string \<Rightarrow> string list" where
  "splitSlash [] = [[]]"
| "splitSlash (c # cs) =
     (if c = CHR ''/'' then [] # splitSlash cs
      else (case splitSlash cs of seg # segs \<Rightarrow> (c # seg) # segs | [] \<Rightarrow> [[c]]))"

fun joinSlash :: "string list \<Rightarrow> string" where
  "joinSlash [] = []"
| "joinSlash [seg] = seg"
| "joinSlash (seg # segs) = seg @ ''/'' @ joinSlash segs"

text \<open>
  Node's \<^verbatim>\<open>path.join\<close> (POSIX). The arguments that are not empty are joined by separators
  and the result is normalised: empty segments and \<open>.\<close> go; \<open>..\<close> takes the segment before
  it away, unless there is none or it is \<open>..\<close> itself, in which case \<open>..\<close> stays in a relative
  path and goes in an absolute one; a leading and a trailing separator are kept.
\<close>

definition normalizeStep :: "bool \<Rightarrow> string list \<Rightarrow> string \<Rightarrow> string list" where
  "normalizeStep allowAboveRoot res seg =
     (if seg = [] \<or> seg = ''.'' then res
      else if seg = ''..''
      then (if res \<noteq> [] \<and> last res \<noteq> ''..'' then butlast res
            else if allowAboveRoot then res @ [''..'']
            else res)
      else res @ [seg])"

definition normalizePath :: "string \<Rightarrow> string" where
  "normalizePath p =
     (if p = [] then ''.''
      else (let isAbsolute = (hd p = CHR ''/'');
                trailingSeparator = (last p = CHR ''/'');
                res = joinSlash (foldl (normalizeStep (\<not> isAbsolute)) [] (splitSlash p))
            in if res = []
               then (if isAbsolute then ''/'' else if trailingSeparator then ''./'' else ''.'')
               else (if isAbsolute then ''/'' else []) @ res
                    @ (if trailingSeparator then ''/'' else [])))"

definition pathJoin :: "string list \<Rightarrow> string" where
  "pathJoin args =
     (if filter (\<lambda>arg. arg \<noteq> []) args = [] then ''.''
      else normalizePath (joinSlash (filter (\<lambda>arg. arg \<noteq> []) args)))"



section \<open>JavaScript values\<close>

text \<open>
  The values that a manifest and a storage document hold: those of JSON, \<open>JUndefined\<close> for
  the value of a missing property, and \<open>JNative name\<close> for the built-in function that every
  ordinary object inherits from \<^verbatim>\<open>Object.prototype\<close> under \<open>name\<close>. \<open>JObj\<close> is a plain object,
  one whose prototype is \<^verbatim>\<open>Object.prototype\<close>; it lists its own properties in the order of
  \<^verbatim>\<open>Object.keys\<close>.
\<close>

datatype json =
  JUndefined | JNull | JBool bool | JNum rat | JStr string | JArr "json list"
  | JObj "(string \<times> json) list" | JNative string

text \<open>
  \<^verbatim>\<open>object[name]\<close> read off the own properties alone: the own property if there is one,
  undefined otherwise.
\<close>

definition ownProperty :: "(string \<times> json) list \<Rightarrow> string \<Rightarrow> json" where
  "ownProperty object name = (case map_of object name of Some v \<Rightarrow> v | None \<Rightarrow> JUndefined)"

section \<open>Manifests and extensions\<close>

text \<open>
  One entry of \<^verbatim>\<open>manifest.content_scripts\<close>, and the manifest properties that the code
  reads; a property that is absent (or falsy, where the code only tests it) is \<open>None\<close>.
  The three popup fields are \<^verbatim>\<open>manifest.action?.default_popup\<close>,
  \<^verbatim>\<open>manifest.browser_action?.default_popup\<close> and \<^verbatim>\<open>manifest.page_action?.default_popup\<close>;
  \<open>icons\<close> is the object \<^verbatim>\<open>manifest.icons\<close>.
\<close>

record ContentScript =
  matches :: "string list option"
  exclude_matches :: "string list option"
  js :: "string list option"
  css :: "string list option"
  run_at :: "string option"

record Manifest =
  version :: "string option"
  description :: "string option"
  icons :: "(string \<times> json) list option"
  content_scripts :: "ContentScript list option"
  action_popup :: "string option"
  browser_action_popup :: "string option"
  page_action_popup :: "string option"

text \<open>The manifest \<^verbatim>\<open>{}\<close>.\<close>

definition emptyManifest :: Manifest where
  "emptyManifest = \<lparr>version = None, description = None, icons = None, content_scripts = None,
     action_popup = None, browser_action_popup = None, page_action_popup = None\<rparr>"


record ExtensionInfo =
  extId :: string
  name :: string
  version :: string
  path :: string
  manifest :: Manifest
  description :: string
  iconUrl :: string
  popupPage :: "string option"


section \<open>Icons (resolveExtensionIcon)\<close>

text \<open>
  \<^verbatim>\<open>sizes.sort((a, b) => b - a)\<close>. Where no size is \<open>NaN\<close> the comparator is consistent and
  the result is the sizes in descending order, equal ones in their order of arrival: a
  stable insertion sort, in which \<open>staysBefore a b\<close> says that \<open>b - a\<close> is not positive. (The
  difference of an infinity and itself is \<open>NaN\<close>, which the sort reads as zero.) A single
  size is its own sorted array. An array of several sizes with \<open>NaN\<close> among them is sorted
  as the platform does.
\<close>

definition staysBefore :: "jsNumber \<Rightarrow> jsNumber \<Rightarrow> bool" where
  "staysBefore a b =
     (case (a, b) of
        (Finite x, Finite y) \<Rightarrow> y \<le> x
      | (Finite x, PlusInfinity) \<Rightarrow> False
      | (MinusInfinity, Finite y) \<Rightarrow> False
      | (MinusInfinity, PlusInfinity) \<Rightarrow> False
      | _ \<Rightarrow> True)"

fun insertSize :: "jsNumber \<Rightarrow> jsNumber list \<Rightarrow> jsNumber list" where
  "insertSize a [] = [a]"
| "insertSize a (b # rest) = (if staysBefore a b then a # b # rest else b # insertSize a rest)"

definition sortDescending :: "platform \<Rightarrow> jsNumber list \<Rightarrow> jsNumber list" where
  "sortDescending pf sizes =
     (if NaN \<in> set sizes \<and> 2 \<le> length sizes then sortWithNaN pf sizes
      else foldr insertSize sizes [])"

text \<open>\<^verbatim>\<open>s.toLowerCase()\<close> on the letters of ASCII.\<close>

definition toLowerCase :: "string \<Rightarrow> string" where
  "toLowerCase s =
     map (\<lambda>c. case map_of (zip ''ABCDEFGHIJKLMNOPQRSTUVWXYZ'' ''abcdefghijklmnopqrstuvwxyz'') c of
                 Some l \<Rightarrow> l | None \<Rightarrow> c) s"

text \<open>
  Node's \<^verbatim>\<open>path.extname\<close> (POSIX): in the last segment of the path, trailing
  separators apart, the text from the last dot on; empty when there is no dot, when the
  last dot opens the segment, and when the segment is \<open>..\<close>.
\<close>

definition extname :: "string \<Rightarrow> string" where
  "extname p =
     (let base = rev (takeWhile (\<lambda>c. c \<noteq> CHR ''/'') (dropWhile (\<lambda>c. c = CHR ''/'') (rev p)));
          afterDot = rev (takeWhile (\<lambda>c. c \<noteq> CHR ''.'') (rev base))
      in if CHR ''.'' \<notin> set base \<or> length afterDot + 1 = length base \<or> base = ''..'' then []
         else CHR ''.'' # afterDot)"

text \<open>
  The exception that leaves \<^verbatim>\<open>resolveExtensionIcon\<close>: \<^verbatim>\<open>iconRelPath.startsWith\<close> throws a
  \<^verbatim>\<open>TypeError\<close> when \<^verbatim>\<open>iconRelPath\<close> is not a string. That line is before the \<^verbatim>\<open>try\<close> block.
\<close>

datatype error = TypeError

text \<open>
  \<^verbatim>\<open>resolveExtensionIcon\<close>; \<open>icons manifest\<close> is \<open>None\<close> when \<^verbatim>\<open>manifest.icons\<close> is absent or
  falsy and the object otherwise. \<^verbatim>\<open>manifest.icons[name]\<close> is read off the own properties:
  what the object inherits is no string either, so that the same exception follows.
\<close>

definition resolveExtensionIcon ::
  "platform \<Rightarrow> files \<Rightarrow> string \<Rightarrow> Manifest \<Rightarrow> error + string" where
  "resolveExtensionIcon pf fs extPath m =
     (case icons m of
        None \<Rightarrow> Inr []
      | Some iconsObject \<Rightarrow>
          (case sortDescending pf (map (toNumber pf) (map fst iconsObject)) of
             [] \<Rightarrow> Inr []
           | largest # others \<Rightarrow>
               (case ownProperty iconsObject (numberToString pf largest) of
                  JStr iconRelPath \<Rightarrow>
                    (let cleanPath = (if prefix ''/'' iconRelPath then drop 1 iconRelPath
                                      else iconRelPath);
                         fullPath = pathJoin [extPath, cleanPath]
                     in if \<not> existsSync fs fullPath then Inr []
                        else (case readFileSync fs fullPath of
                                None \<Rightarrow> Inr []
                              | Some buf \<Rightarrow>
                                  (let ext = toLowerCase (extname iconRelPath);
                                       mime = (if ext = ''.svg'' then ''image/svg+xml''
                                               else if ext = ''.webp'' then ''image/webp''
                                               else if ext = ''.jpg'' \<or> ext = ''.jpeg''
                                               then ''image/jpeg''
                                               else ''image/png'')
                                   in Inr (''data:'' @ mime @ '';base64,'' @ toBase64 pf buf))))
                | other \<Rightarrow> Inl TypeError)))"

text \<open>Two manifests: one with an icon entry that is a number, and one with the size \<open>016\<close>.\<close>

definition numberIconManifest :: Manifest where
  "numberIconManifest = emptyManifest\<lparr>icons := Some [(''128'', JNum 5)]\<rparr>"

definition paddedSizeManifest :: Manifest where
  "paddedSizeManifest = emptyManifest\<lparr>icons := Some [(''016'', JStr ''icon.png'')]\<rparr>"


section \<open>Loaded extensions (getLoadedExtensions, resolvePopupPage)\<close>







section \<open>Content scripts (getContentScriptsForUrl)\<close>


















section \<open>Storage (loadStorage, saveStorage, storageGet, storageSet, storageRemove, storageClear)\<close>

text \<open>
  The storage functions treat a document as an object of the language. What the language
  does with an object is a parameter of the model, over a type \<open>'v\<close> of values:
  \<^item> \<open>emptyObject\<close> is \<^verbatim>\<open>{}\<close>, \<open>spread v\<close> is \<^verbatim>\<open>{ ...v }\<close> and \<open>singleton key v\<close> is
    \<^verbatim>\<open>{ [key]: v }\<close>;
  \<^item> \<open>truthy v\<close> says that \<open>v\<close> is truthy;
  \<^item> \<open>hasProperty v key\<close> is \<^verbatim>\<open>key in v\<close>, \<open>getProperty v key\<close> is \<^verbatim>\<open>v[key]\<close> and
    \<open>setProperty v key x\<close> is \<open>v\<close> after \<^verbatim>\<open>v[key] = x\<close>; each is \<open>None\<close> when the operation
    throws;
  \<^item> \<open>assignAll v items\<close> is \<open>v\<close> after \<^verbatim>\<open>Object.assign(v, items)\<close> and
    \<open>deleteProperty v key\<close> is \<open>v\<close> after \<^verbatim>\<open>delete v[key]\<close>, each with the answer to whether
    the operation threw;
  \<^item> \<open>entries v\<close> is \<^verbatim>\<open>Object.entries(v)\<close>;
  \<^item> \<open>jsonParse text\<close> is \<^verbatim>\<open>JSON.parse(text)\<close>, \<open>None\<close> when it throws, and
    \<open>jsonStringify v\<close> is \<^verbatim>\<open>JSON.stringify(v, null, 2)\<close>, \<open>None\<close> when it throws or gives no
    string.
\<close>

record 'v objects =
  emptyObject :: 'v
  spread :: "'v \<Rightarrow> 'v"
  singleton :: "string \<Rightarrow> 'v \<Rightarrow> 'v"
  truthy :: "'v \<Rightarrow> bool"
  hasProperty :: "'v \<Rightarrow> string \<Rightarrow> bool option"
  getProperty :: "'v \<Rightarrow> string \<Rightarrow> 'v option"
  setProperty :: "'v \<Rightarrow> string \<Rightarrow> 'v \<Rightarrow> 'v option"
  assignAll :: "'v \<Rightarrow> 'v \<Rightarrow> 'v \<times> bool"
  deleteProperty :: "'v \<Rightarrow> string \<Rightarrow> 'v \<times> bool"
  entries :: "'v \<Rightarrow> (string \<times> 'v) list"
  jsonParse :: "string \<Rightarrow> 'v option"
  jsonStringify :: "'v \<Rightarrow> string option"

text \<open>
  The fields of \<^verbatim>\<open>ExtensionManager\<close> that the storage functions use, and the disk;
  the argument \<^verbatim>\<open>extensionId\<close> of these functions is \<open>eid\<close> below.
  \<open>ioError\<close> gives, for the paths where \<^verbatim>\<open>fs.writeFileSync\<close> and \<^verbatim>\<open>fs.unlinkSync\<close> throw,
  the message of the error; a path whose directory is missing is one of them.
\<close>

record 'v ManagerState =
  extensionsPath :: string
  extensionStorage :: "string \<rightharpoonup> 'v"
  disk :: files
  ioError :: "string \<rightharpoonup> string"

definition getStoragePath :: "'v ManagerState \<Rightarrow> string \<Rightarrow> string" where
  "getStoragePath st eid = pathJoin [extensionsPath st, eid, ''_solarium_storage.json'']"

text \<open>
  \<^verbatim>\<open>loadStorage\<close>: the value, whether it is the very object that the cache holds, and the
  state. What \<^verbatim>\<open>JSON.parse\<close> returns is cached and returned as it is; a missing file, a
  read that throws and a parse that throws end in two empty objects, one cached and one
  returned.

  The cache maps an identifier to the value of its object. The objects of two identifiers
  are never one object: each comes from a \<^verbatim>\<open>JSON.parse\<close> or a \<^verbatim>\<open>{}\<close> of its own, and no
  function stores the object of one identifier under another. So a change of the object of
  one identifier is a new value for that identifier and for no other.
\<close>

definition loadStorage ::
  "'v objects \<Rightarrow> string \<Rightarrow> 'v ManagerState \<Rightarrow> 'v \<times> bool \<times> 'v ManagerState" where
  "loadStorage lang eid st =
     (case extensionStorage st eid of
        Some cached \<Rightarrow> (cached, True, st)
      | None \<Rightarrow>
          (let storagePath = getStoragePath st eid;
               parsed = (if existsSync (disk st) storagePath
                         then (case readFileSync (disk st) storagePath of
                                 Some text \<Rightarrow> jsonParse lang text
                               | None \<Rightarrow> None)
                         else None)
           in case parsed of
                Some data \<Rightarrow>
                  (data, True, st\<lparr>extensionStorage := (extensionStorage st)(eid \<mapsto> data)\<rparr>)
              | None \<Rightarrow>
                  (emptyObject lang, False,
                   st\<lparr>extensionStorage := (extensionStorage st)(eid \<mapsto> emptyObject lang)\<rparr>)))"

text \<open>
  \<^verbatim>\<open>saveStorage\<close>: \<^verbatim>\<open>JSON.stringify\<close> and the write are inside the \<^verbatim>\<open>try\<close> block, so that
  a failure of either is logged and changes nothing.
\<close>

definition saveStorage :: "'v objects \<Rightarrow> string \<Rightarrow> 'v ManagerState \<Rightarrow> 'v ManagerState" where
  "saveStorage lang eid st =
     (let data = (case extensionStorage st eid of
                    Some d \<Rightarrow> if truthy lang d then d else emptyObject lang
                  | None \<Rightarrow> emptyObject lang);
          storagePath = getStoragePath st eid
      in case jsonStringify lang data of
           None \<Rightarrow> st
         | Some text \<Rightarrow>
             if ioError st storagePath = None
             then st\<lparr>disk := (disk st)(storagePath \<mapsto> Content text)\<rparr>
             else st)"

text \<open>
  The shapes of the \<^verbatim>\<open>keys\<close> argument of \<^verbatim>\<open>storageGet\<close>: null or undefined, a string, an
  array of strings, and any other value, which the code takes for an object of defaults.
\<close>

datatype 'v keysSpec = KNull | KString string | KArray "string list" | KObject 'v

text \<open>
  The loop over an array of keys and the loop over the entries of the defaults; \<open>None\<close>
  when an operation in it throws.
\<close>

fun pickPresent :: "'v objects \<Rightarrow> 'v \<Rightarrow> string list \<Rightarrow> 'v \<Rightarrow> 'v option" where
  "pickPresent lang storage [] result = Some result"
| "pickPresent lang storage (key # keys) result =
     (case hasProperty lang storage key of
        None \<Rightarrow> None
      | Some False \<Rightarrow> pickPresent lang storage keys result
      | Some True \<Rightarrow>
          (case getProperty lang storage key of
             None \<Rightarrow> None
           | Some v \<Rightarrow>
               (case setProperty lang result key v of
                  None \<Rightarrow> None
                | Some result' \<Rightarrow> pickPresent lang storage keys result')))"

fun withDefaults :: "'v objects \<Rightarrow> 'v \<Rightarrow> (string \<times> 'v) list \<Rightarrow> 'v \<Rightarrow> 'v option" where
  "withDefaults lang storage [] result = Some result"
| "withDefaults lang storage ((key, defaultVal) # rest) result =
     (case hasProperty lang storage key of
        None \<Rightarrow> None
      | Some present \<Rightarrow>
          (case (if present then getProperty lang storage key else Some defaultVal) of
             None \<Rightarrow> None
           | Some v \<Rightarrow>
               (case setProperty lang result key v of
                  None \<Rightarrow> None
                | Some result' \<Rightarrow> withDefaults lang storage rest result')))"

text \<open>\<^verbatim>\<open>storageGet\<close>: what it returns, \<open>None\<close> when it throws, and the state.\<close>

definition storageGet ::
  "'v objects \<Rightarrow> string \<Rightarrow> 'v keysSpec \<Rightarrow> 'v ManagerState \<Rightarrow> 'v option \<times> 'v ManagerState" where
  "storageGet lang eid keys st =
     (let (storage, shared, st') = loadStorage lang eid st
      in (case keys of
            KNull \<Rightarrow> Some (spread lang storage)
          | KString key \<Rightarrow> map_option (singleton lang key) (getProperty lang storage key)
          | KArray keyList \<Rightarrow> pickPresent lang storage keyList (emptyObject lang)
          | KObject defaults \<Rightarrow> withDefaults lang storage (entries lang defaults) (emptyObject lang),
          st'))"

text \<open>
  \<^verbatim>\<open>storageSet\<close>: whether it returns, and the state. \<^verbatim>\<open>Object.assign\<close> changes the object
  that \<^verbatim>\<open>loadStorage\<close> has returned; when it throws, the cache keeps that object if it is
  the one the cache holds, and nothing is saved.
\<close>

definition storageSet ::
  "'v objects \<Rightarrow> string \<Rightarrow> 'v \<Rightarrow> 'v ManagerState \<Rightarrow> bool \<times> 'v ManagerState" where
  "storageSet lang eid items st =
     (let (storage, shared, st') = loadStorage lang eid st;
          (assigned, threw) = assignAll lang storage items;
          st'' = st'\<lparr>extensionStorage := (extensionStorage st')(eid \<mapsto> assigned)\<rparr>
      in if threw then (False, if shared then st'' else st')
         else (True, saveStorage lang eid st''))"










section \<open>What is known of objects\<close>

text \<open>
  As for the platform: each of the following functions gives what the language does on a
  fragment of the values, and \<open>None\<close> elsewhere. The fragment is the plain objects
  (\<open>JObj\<close>), whose prototype is \<^verbatim>\<open>Object.prototype\<close>, and \<^verbatim>\<open>null\<close>.

  The names that a plain object inherits from \<^verbatim>\<open>Object.prototype\<close>: those of the
  standard, the ones of its annex B among them.
\<close>

definition objectPrototypeNames :: "string list" where
  "objectPrototypeNames =
     [''constructor'', ''__defineGetter__'', ''__defineSetter__'', ''hasOwnProperty'',
      ''__lookupGetter__'', ''__lookupSetter__'', ''isPrototypeOf'', ''propertyIsEnumerable'',
      ''toString'', ''valueOf'', ''__proto__'', ''toLocaleString'']"

text \<open>
  \<^verbatim>\<open>{ ...v }\<close> copies the own properties of an object and is empty for \<^verbatim>\<open>null\<close>.
\<close>

definition plainSpread :: "json \<Rightarrow> json option" where
  "plainSpread v = (case v of JObj kvs \<Rightarrow> Some (JObj kvs) | JNull \<Rightarrow> Some (JObj []) | _ \<Rightarrow> None)"

text \<open>Which values are truthy.\<close>

definition plainTruthy :: "json \<Rightarrow> bool" where
  "plainTruthy v =
     (case v of
        JUndefined \<Rightarrow> False | JNull \<Rightarrow> False | JBool b \<Rightarrow> b | JNum q \<Rightarrow> q \<noteq> 0
      | JStr s \<Rightarrow> s \<noteq> [] | _ \<Rightarrow> True)"

text \<open>
  \<^verbatim>\<open>key in v\<close> finds the own properties of a plain object and what it inherits; on
  \<^verbatim>\<open>null\<close> it throws.
\<close>

definition plainHas :: "json \<Rightarrow> string \<Rightarrow> bool option option" where
  "plainHas v key =
     (case v of
        JObj kvs \<Rightarrow>
          (case map_of kvs key of
             Some x \<Rightarrow> Some (Some True)
           | None \<Rightarrow> Some (Some (key \<in> set objectPrototypeNames)))
      | JNull \<Rightarrow> Some None
      | _ \<Rightarrow> None)"

text \<open>
  \<^verbatim>\<open>v[key]\<close> is the own property of a plain object if there is one, the inherited
  function if \<open>key\<close> is one of the inherited names, and undefined otherwise; on \<^verbatim>\<open>null\<close> it
  throws. (The inherited \<open>__proto__\<close> is an accessor and is left out.)
\<close>

definition plainGet :: "json \<Rightarrow> string \<Rightarrow> json option option" where
  "plainGet v key =
     (case v of
        JObj kvs \<Rightarrow>
          (case map_of kvs key of
             Some x \<Rightarrow> Some (Some x)
           | None \<Rightarrow>
               if key = ''__proto__'' then None
               else if key \<in> set objectPrototypeNames then Some (Some (JNative key))
               else Some (Some JUndefined))
      | JNull \<Rightarrow> Some None
      | _ \<Rightarrow> None)"

text \<open>
  \<^verbatim>\<open>v[key] = x\<close> on a plain object gives the own property \<open>key\<close> the value \<open>x\<close>: in its
  place if it is there, after the others if it is new. (Left out: the key \<open>__proto__\<close>,
  which sets the prototype, and the keys of digits, which an object lists before the
  others.)
\<close>

definition ordinaryKey :: "string \<Rightarrow> bool" where
  "ordinaryKey key \<longleftrightarrow> key \<noteq> ''__proto__'' \<and> list_ex (\<lambda>c. c \<notin> set ''0123456789'') key"

definition plainSet :: "json \<Rightarrow> string \<Rightarrow> json \<Rightarrow> json option option" where
  "plainSet v key x =
     (case v of
        JObj kvs \<Rightarrow> if ordinaryKey key then Some (Some (JObj (AList.update key x kvs))) else None
      | _ \<Rightarrow> None)"

text \<open>
  \<^verbatim>\<open>Object.assign(v, items)\<close> sets the own properties of \<open>items\<close> on \<open>v\<close> one after the
  other; on \<^verbatim>\<open>null\<close> it throws.
\<close>

fun updateAll :: "(string \<times> json) list \<Rightarrow> (string \<times> json) list \<Rightarrow> (string \<times> json) list" where
  "updateAll kvs [] = kvs"
| "updateAll kvs ((key, x) # items) = updateAll (AList.update key x kvs) items"

definition plainAssign :: "json \<Rightarrow> json \<Rightarrow> (json \<times> bool) option" where
  "plainAssign v items =
     (case v of
        JObj kvs \<Rightarrow>
          (case items of
             JObj ikvs \<Rightarrow>
               if list_all (\<lambda>(key, x). ordinaryKey key) ikvs
               then Some (JObj (updateAll kvs ikvs), False) else None
           | _ \<Rightarrow> None)
      | JNull \<Rightarrow> Some (JNull, True)
      | _ \<Rightarrow> None)"

text \<open>\<^verbatim>\<open>delete v[key]\<close> takes the own property away; on \<^verbatim>\<open>null\<close> it throws.\<close>

definition plainDelete :: "json \<Rightarrow> string \<Rightarrow> (json \<times> bool) option" where
  "plainDelete v key =
     (case v of
        JObj kvs \<Rightarrow> Some (JObj (AList.delete key kvs), False)
      | JNull \<Rightarrow> Some (JNull, True)
      | _ \<Rightarrow> None)"

definition plainEntries :: "json \<Rightarrow> (string \<times> json) list option" where
  "plainEntries v = (case v of JObj kvs \<Rightarrow> Some kvs | _ \<Rightarrow> None)"

text \<open>
  \<^verbatim>\<open>JSON.stringify(v, null, 2)\<close> and \<^verbatim>\<open>JSON.parse\<close> on the object without properties and
  on the objects with one property whose key and value are strings of lower-case letters:
  the texts are \<^verbatim>\<open>{}\<close> and, on three lines, an opening brace, the quoted key and the quoted
  value with a colon and a blank between them after two blanks, and a closing brace. The
  text \<^verbatim>\<open>null\<close> is parsed to \<^verbatim>\<open>null\<close>.
\<close>

definition flatText :: "string \<Rightarrow> string \<Rightarrow> string" where
  "flatText key x =
     ''{'' @ [CHR 0x0A] @ ''  '' @ [CHR 0x22] @ key @ [CHR 0x22] @ '': '' @ [CHR 0x22] @ x
     @ [CHR 0x22] @ [CHR 0x0A] @ ''}''"

definition plainStringify :: "json \<Rightarrow> string option option" where
  "plainStringify v =
     (case v of
        JObj [] \<Rightarrow> Some (Some ''{}'')
      | JObj [(key, JStr x)] \<Rightarrow>
          if list_all lowerLetter key \<and> list_all lowerLetter x
          then Some (Some (flatText key x)) else None
      | _ \<Rightarrow> None)"

definition plainParse :: "string \<Rightarrow> json option option" where
  "plainParse text =
     (if text = ''{}'' then Some (Some (JObj []))
      else if text = ''null'' then Some (Some JNull)
      else (let key = takeWhile lowerLetter (drop 5 text);
                x = takeWhile lowerLetter (drop (5 + length key + 4) text)
            in if text = flatText key x then Some (Some (JObj [(key, JStr x)])) else None))"

text \<open>
  \<open>plainObjects lang\<close> is the language \<open>lang\<close> with these values in the place of its own: it
  stands for any language that treats plain objects as the standard says.
\<close>

definition plainObjects :: "json objects \<Rightarrow> json objects" where
  "plainObjects lang =
     \<lparr>emptyObject = JObj [],
      spread = (\<lambda>v. case plainSpread v of Some r \<Rightarrow> r | None \<Rightarrow> spread lang v),
      singleton = (\<lambda>key v. JObj [(key, v)]),
      truthy = plainTruthy,
      hasProperty = (\<lambda>v key. case plainHas v key of Some r \<Rightarrow> r | None \<Rightarrow> hasProperty lang v key),
      getProperty = (\<lambda>v key. case plainGet v key of Some r \<Rightarrow> r | None \<Rightarrow> getProperty lang v key),
      setProperty = (\<lambda>v key x. case plainSet v key x of
                                  Some r \<Rightarrow> r | None \<Rightarrow> setProperty lang v key x),
      assignAll = (\<lambda>v items. case plainAssign v items of
                                Some r \<Rightarrow> r | None \<Rightarrow> assignAll lang v items),
      deleteProperty = (\<lambda>v key. case plainDelete v key of
                                   Some r \<Rightarrow> r | None \<Rightarrow> deleteProperty lang v key),
      entries = (\<lambda>v. case plainEntries v of Some r \<Rightarrow> r | None \<Rightarrow> entries lang v),
      jsonParse = (\<lambda>text. case plainParse text of Some r \<Rightarrow> r | None \<Rightarrow> jsonParse lang text),
      jsonStringify = (\<lambda>v. case plainStringify v of
                              Some r \<Rightarrow> r | None \<Rightarrow> jsonStringify lang v)\<rparr>"


text \<open>
  The state of a manager that has stored nothing, on a disk without files, and three states
  like it on disks with installed extensions, whose directories hold their manifests: with
  the extension \<open>aaaa\<close>; with the extensions \<open>ext-A\<close> and \<open>ext-B\<close>, the second with a storage
  file that holds one key; and with the extension \<open>ext-B\<close> and a storage file that holds
  \<^verbatim>\<open>null\<close>.
\<close>

definition emptyManager :: "'v ManagerState" where
  "emptyManager = \<lparr>extensionsPath = ''/data/extensions'', extensionStorage = Map.empty,
     disk = Map.empty, ioError = Map.empty\<rparr>"



definition nullFileState :: "json ManagerState" where
  "nullFileState = emptyManager
     \<lparr>disk := [''/data/extensions/ext-B/manifest.json'' \<mapsto> Content ''{}'',
               ''/data/extensions/ext-B/_solarium_storage.json'' \<mapsto> Content ''null'']\<rparr>"


section \<open>Removing an extension (the handler of extension:remove)\<close>

text \<open>
  The value the handler returns: \<^verbatim>\<open>{ success: true }\<close>, or \<^verbatim>\<open>{ success: false, error }\<close>
  with the message of the error that was caught.
\<close>

datatype removeResult = RemoveSucceeded | RemoveFailed string

text \<open>
  \<open>hostRemove eid\<close> is the call of the host's \<^verbatim>\<open>removeExtension\<close>: \<open>None\<close> when it
  returns, the message of the error when it throws.
\<close>

definition extensionRemove ::
  "(string \<Rightarrow> string option) \<Rightarrow> string \<Rightarrow> 'v ManagerState \<Rightarrow> removeResult \<times> 'v ManagerState" where
  "extensionRemove hostRemove eid st =
     (case hostRemove eid of
        Some message \<Rightarrow> (RemoveFailed message, st)
      | None \<Rightarrow>
          (let st1 = st\<lparr>extensionStorage := (extensionStorage st)(eid := None)\<rparr>;
               storagePath = getStoragePath st1 eid
           in if existsSync (disk st1) storagePath
              then (case ioError st1 storagePath of
                      Some message \<Rightarrow> (RemoveFailed message, st1)
                    | None \<Rightarrow> (RemoveSucceeded, st1\<lparr>disk := (disk st1)(storagePath := None)\<rparr>))
              else (RemoveSucceeded, st1)))"

text \<open>
  A state in which an extension has a cached document and a storage file, a host whose
  removal throws, and a host whose removal returns.
\<close>

definition installedState :: "json ManagerState" where
  "installedState = emptyManager
     \<lparr>extensionStorage := [''abcdefghijklmnop'' \<mapsto> JObj [(''a'', JNum 1)]],
      disk := [''/data/extensions/abcdefghijklmnop/_solarium_storage.json'' \<mapsto> Content ''{}'']\<rparr>"

definition rejectingHost :: "string \<Rightarrow> string option" where
  "rejectingHost eid = Some ''removal rejected''"

definition acceptingHost :: "string \<Rightarrow> string option" where
  "acceptingHost eid = None"


section \<open>Installing a downloaded archive (setupCRXHandler)\<close>

type_synonym byte = "8 word"

text \<open>\<^verbatim>\<open>buf.indexOf(value)\<close>: the first offset at which \<open>value\<close> occurs in \<open>buf\<close>, or -1.\<close>

fun firstOffset :: "byte list \<Rightarrow> byte list \<Rightarrow> nat option" where
  "firstOffset value [] = (if value = [] then Some 0 else None)"
| "firstOffset value (b # buf) =
     (if prefix value (b # buf) then Some 0 else map_option Suc (firstOffset value buf))"

definition indexOf :: "byte list \<Rightarrow> byte list \<Rightarrow> int" where
  "indexOf buf value = (case firstOffset value buf of Some i \<Rightarrow> int i | None \<Rightarrow> - 1)"

definition zipMagic :: "byte list" where
  "zipMagic = [0x50, 0x4B, 0x03, 0x04]"

text \<open>
  What the callback of \<^verbatim>\<open>item.once('done', ...)\<close> meets outside this repository:
  \<^item> \<open>unpack zipBuf\<close>: \<^verbatim>\<open>new AdmZip(zipBuf)\<close> and \<^verbatim>\<open>zip.extractAllTo(destDir, true)\<close> return
    (\<open>False\<close>: one of them throws);
  \<^item> \<open>loadExtension\<close>: the name of the extension that the host loads from \<^verbatim>\<open>destDir\<close>,
    \<open>None\<close> when the host rejects it;
  \<^item> \<open>unlinkTemp\<close>: \<^verbatim>\<open>fs.unlinkSync(tempPath)\<close> returns.
\<close>

record crxHost =
  unpack :: "byte list \<Rightarrow> bool"
  loadExtension :: "string option"
  unlinkTemp :: bool

text \<open>
  What the callback does, in order: the calls it makes outside the repository (with the
  buffer that it hands to the archive library) and the two log lines for a failure.
\<close>

datatype crxAction =
  ExtractAll "byte list" | LoadExtension | NotifyInstalled string | UnlinkTemp
  | LogInstallFailed | LogDownloadFailed

text \<open>
  The callback: \<open>completed\<close> is \<^verbatim>\<open>state === 'completed'\<close>, and \<open>fileRead\<close> is the buffer that
  \<^verbatim>\<open>fs.readFileSync(tempPath)\<close> returns, \<open>None\<close> when it throws.
\<close>

definition crxDownloadDone :: "crxHost \<Rightarrow> bool \<Rightarrow> byte list option \<Rightarrow> crxAction list" where
  "crxDownloadDone host completed fileRead =
     (if completed
      then (case fileRead of
              None \<Rightarrow> [LogInstallFailed]
            | Some fileBuf \<Rightarrow>
                (let zipStart = indexOf fileBuf zipMagic;
                     zipBuf = (if zipStart > 0 then drop (nat zipStart) fileBuf else fileBuf)
                 in if \<not> unpack host zipBuf then [ExtractAll zipBuf, LogInstallFailed]
                    else (case loadExtension host of
                            None \<Rightarrow> [ExtractAll zipBuf, LoadExtension, LogInstallFailed]
                          | Some extName \<Rightarrow>
                              if unlinkTemp host
                              then [ExtractAll zipBuf, LoadExtension, NotifyInstalled extName,
                                    UnlinkTemp]
                              else [ExtractAll zipBuf, LoadExtension, NotifyInstalled extName,
                                    UnlinkTemp, LogInstallFailed])))
      else [LogDownloadFailed])"

text \<open>
  An archive without entries: the end-of-central-directory record alone (its signature
  \<open>50 4B 05 06\<close> and eighteen zero bytes). The local-file-header signature does not occur in
  it. With it, a host that unpacks it and loads the extension \<open>Example\<close> from the destination
  directory, which an earlier installation has filled.
\<close>

definition emptyArchive :: "byte list" where
  "emptyArchive = [0x50, 0x4B, 0x05, 0x06] @ replicate 18 0"

definition reinstallHost :: crxHost where
  "reinstallHost =
     \<lparr>unpack = (\<lambda>zipBuf. zipBuf = emptyArchive), loadExtension = Some ''Example'',
      unlinkTemp = True\<rparr>"


section \<open>Tab registry: proofs\<close>

lemma keys_reindex: "map fst (reindex n r) = map fst r"
  by (induction n r rule: reindex.induct) auto

lemma length_reindex: "length (reindex n r) = length r"
  by (induction n r rule: reindex.induct) auto

lemma indices_reindex:
  "map (\<lambda>(k, tab). index tab) (reindex n r) = map int [n ..< n + length r]"
proof (induction n r rule: reindex.induct)
  case (1 idx)
  then show ?case by simp
next
  case (2 idx k tab rest)
  have "[idx ..< idx + length ((k, tab) # rest)] = idx # [Suc idx ..< Suc idx + length rest]"
    using upt_conv_Cons [of idx "idx + Suc (length rest)"] by simp
  with 2 show ?case by simp
qed

lemma activeCount_reindex:
  "length (filter (\<lambda>(k, tab). active tab) (reindex n r)) = length (filter (\<lambda>(k, tab). active tab) r)"
  by (induction n r rule: reindex.induct) auto

lemma filter_map_le:
  "(\<And>x. x \<in> set xs \<Longrightarrow> P (f x) \<Longrightarrow> Q x) \<Longrightarrow> length (filter P (map f xs)) \<le> length (filter Q xs)"
  by (induction xs) auto

lemma at_most_one_key:
  "distinct (map fst xs) \<Longrightarrow> (\<And>x. x \<in> set xs \<Longrightarrow> P x \<Longrightarrow> fst x = a) \<Longrightarrow> length (filter P xs) \<le> 1"
proof (induction xs)
  case Nil
  then show ?case by simp
next
  case (Cons x xs)
  show ?case
  proof (cases "P x")
    case True
    then have "fst x = a" using Cons.prems(2) by simp
    moreover have "fst x \<notin> fst ` set xs" using Cons.prems(1) by simp
    ultimately have "\<forall>y \<in> set xs. \<not> P y"
      using Cons.prems(2) by (metis image_eqI list.set_intros(2))
    then have "filter P xs = []" by (simp add: filter_empty_conv)
    then show ?thesis by simp
  next
    case False
    then show ?thesis using Cons by simp
  qed
qed

lemma exactly_one_key:
  assumes "distinct (map fst xs)" and "\<And>x. x \<in> set xs \<Longrightarrow> P x \<Longrightarrow> fst x = a"
    and "x \<in> set xs" and "P x"
  shows "length (filter P xs) = 1"
proof -
  have "length (filter P xs) \<le> 1" using assms(1,2) by (rule at_most_one_key)
  moreover have "x \<in> set (filter P xs)" using assms(3,4) by simp
  then have "length (filter P xs) \<noteq> 0" by (metis length_0_conv empty_iff list.set(1))
  ultimately show ?thesis by linarith
qed

lemma keys_updateTab:
  "map fst (tabRegistry (updateTab t s)) =
     (if map_of (tabRegistry s) (p_id t) = None then map fst (tabRegistry s) @ [p_id t]
      else map fst (tabRegistry s))"
  by (auto simp: updateTab_def Let_def split: option.splits prod.splits intro!: map_idI)

lemma distinct_updateTab:
  "distinct (map fst (tabRegistry s)) \<Longrightarrow> distinct (map fst (tabRegistry (updateTab t s)))"
  by (auto simp: keys_updateTab map_of_eq_None_iff)

lemma keys_setActiveTab: "map fst (tabRegistry (setActiveTab tid s)) = map fst (tabRegistry s)"
  by (auto simp: setActiveTab_def)

lemma keys_removeTab:
  "map fst (tabRegistry (removeTab tid s)) = filter (\<lambda>k. k \<noteq> tid) (map fst (tabRegistry s))"
  by (simp add: removeTab_def Let_def keys_reindex filter_map comp_def case_prod_unfold)

lemma distinct_removeTab:
  "distinct (map fst (tabRegistry s)) \<Longrightarrow> distinct (map fst (tabRegistry (removeTab tid s)))"
  by (simp add: keys_removeTab)

lemma activeCount_removeTab: "activeCount (removeTab tid s) \<le> activeCount s"
proof -
  have "length (filter (\<lambda>(k, tab). active tab) (filter (\<lambda>(k, tab). k \<noteq> tid) (tabRegistry s)))
        \<le> length (filter (\<lambda>(k, tab). active tab) (tabRegistry s))"
    by (rule order_trans [OF _ length_filter_le [of "\<lambda>(k, tab). k \<noteq> tid" "filter (\<lambda>(k, tab). active tab) (tabRegistry s)"]])
       (simp add: conj_commute)
  then show ?thesis
    by (simp add: activeCount_def removeTab_def Let_def activeCount_reindex)
qed

lemma activeCount_setActiveTab_le:
  assumes "distinct (map fst (tabRegistry s))"
  shows "activeCount (setActiveTab tid s) \<le> 1"
proof -
  have d: "distinct (map fst (tabRegistry (setActiveTab tid s)))"
    using assms by (simp add: keys_setActiveTab)
  show ?thesis unfolding activeCount_def
    by (rule at_most_one_key [OF d, where a = tid]) (auto simp: setActiveTab_def)
qed

lemma activeCount_setActiveTab_eq:
  assumes "distinct (map fst (tabRegistry s))" and "map_of (tabRegistry s) tid \<noteq> None"
  shows "activeCount (setActiveTab tid s) = 1"
proof -
  have d: "distinct (map fst (tabRegistry (setActiveTab tid s)))"
    using assms by (simp add: keys_setActiveTab)
  from assms(2) obtain tab where m: "(tid, tab) \<in> set (tabRegistry s)"
    by (auto dest: map_of_SomeD)
  then have "(tid, tab\<lparr>active := True\<rparr>) \<in> set (tabRegistry (setActiveTab tid s))"
    by (force simp: setActiveTab_def)
  then show ?thesis unfolding activeCount_def
    by (rule exactly_one_key [OF d, where a = tid, rotated]) (auto simp: setActiveTab_def)
qed

lemma updateTab_active_reg:
  "p_active t = Some True \<Longrightarrow>
   tabRegistry (updateTab t s) =
     map (\<lambda>(k, tab). if k \<noteq> p_id t then (k, tab\<lparr>active := False\<rparr>) else (k, tab))
       (case map_of (tabRegistry s) (p_id t) of
          Some existing \<Rightarrow>
            map (\<lambda>(k, tab). if k = p_id t then (k, assign tab t) else (k, tab)) (tabRegistry s)
        | None \<Rightarrow> tabRegistry s @ [(p_id t, newTab t (length (tabRegistry s)))])"
  by (simp add: updateTab_def Let_def)

lemma deactivated_others:
  "x \<in> set (map (\<lambda>(k, tab). if k \<noteq> a then (k, tab\<lparr>active := False\<rparr>) else (k, tab)) r)
   \<Longrightarrow> active (snd x) \<Longrightarrow> fst x = a"
  by (induction r) (auto split: if_splits)

lemma updateTab_active_eq:
  assumes d: "distinct (map fst (tabRegistry s))" and a: "p_active t = Some True"
  shows "activeCount (updateTab t s) = 1"
proof -
  have d': "distinct (map fst (tabRegistry (updateTab t s)))"
    using d by (rule distinct_updateTab)
  have only: "fst x = p_id t"
    if "x \<in> set (tabRegistry (updateTab t s))" and "case x of (k, tab) \<Rightarrow> active tab" for x
    using that deactivated_others [of x "p_id t"] updateTab_active_reg [OF a, of s]
    by (simp add: case_prod_unfold)
  have ex: "\<exists>tab. (p_id t, tab) \<in> set (tabRegistry (updateTab t s)) \<and> active tab"
  proof (cases "map_of (tabRegistry s) (p_id t)")
    case None
    have "active (newTab t (length (tabRegistry s)))" using a by (simp add: newTab_def)
    moreover have "(p_id t, newTab t (length (tabRegistry s))) \<in> set (tabRegistry (updateTab t s))"
      by (simp add: updateTab_active_reg [OF a] None image_iff)
    ultimately show ?thesis by blast
  next
    case (Some e)
    then have "(p_id t, e) \<in> set (tabRegistry s)" by (rule map_of_SomeD)
    then have "(p_id t, assign e t) \<in> set (tabRegistry (updateTab t s))"
      by (simp add: updateTab_active_reg [OF a] Some image_iff) force
    moreover have "active (assign e t)" using a by (simp add: assign_def)
    ultimately show ?thesis by blast
  qed
  then obtain tab where m: "(p_id t, tab) \<in> set (tabRegistry (updateTab t s))" and "active tab"
    by blast
  then have "case (p_id t, tab) of (k, tab) \<Rightarrow> active tab" by simp
  with d' only m show ?thesis unfolding activeCount_def
    by (rule exactly_one_key)
qed

lemma updateTab_active_le:
  assumes a: "p_active t \<noteq> Some True"
  shows "activeCount (updateTab t s) \<le> activeCount s"
proof (cases "map_of (tabRegistry s) (p_id t)")
  case None
  then show ?thesis using a
    by (simp add: updateTab_def Let_def newTab_def activeCount_def)
next
  case (Some e)
  have "length (filter (\<lambda>(k, tab). active tab)
          (map (\<lambda>(k, tab). if k = p_id t then (k, assign tab t) else (k, tab)) (tabRegistry s)))
        \<le> length (filter (\<lambda>(k, tab). active tab) (tabRegistry s))"
    using a by (intro filter_map_le) (auto simp: assign_def split: option.splits if_splits)
  then show ?thesis using a Some
    by (simp add: updateTab_def Let_def activeCount_def)
qed

lemma tabInv_empty: "tabInv emptyTabState"
  by (simp add: tabInv_def emptyTabState_def activeCount_def)

lemma tabInv_step: "tabInv s \<Longrightarrow> tabInv (applyTabOp s x)"
proof (cases x)
  case (Upsert t)
  assume "tabInv s"
  then show ?thesis using Upsert updateTab_active_eq [of s t] updateTab_active_le [of t s]
    by (cases "p_active t = Some True") (auto simp: tabInv_def distinct_updateTab)
next
  case (SetActive tid)
  assume "tabInv s"
  then show ?thesis using SetActive activeCount_setActiveTab_le [of s tid]
    by (simp add: tabInv_def keys_setActiveTab)
next
  case (Remove tid)
  assume "tabInv s"
  then show ?thesis using Remove activeCount_removeTab [of tid s]
    by (simp add: tabInv_def distinct_removeTab)
qed

lemma tabInv_run: "tabInv (runTabOps ops)"
  unfolding runTabOps_def
  by (induction ops rule: rev_induct) (simp_all add: tabInv_empty tabInv_step)

text \<open>
  Claim C1, as the code has it: after every sequence of \<^verbatim>\<open>updateTab\<close>, \<^verbatim>\<open>setActiveTab\<close>
  and \<^verbatim>\<open>removeTab\<close> calls on an initially empty registry, at most one tab record has
  \<open>active = true\<close>; exactly one has it right after an \<^verbatim>\<open>updateTab\<close> whose incoming record
  is marked active, and right after a \<^verbatim>\<open>setActiveTab\<close> of an identifier that is in the
  registry.
\<close>

theorem C1_at_most_one_active:
  "activeCount (runTabOps ops) \<le> 1
   \<and> (p_active t = Some True \<longrightarrow> activeCount (runTabOps (ops @ [Upsert t])) = 1)
   \<and> (map_of (tabRegistry (runTabOps ops)) tid \<noteq> None \<longrightarrow>
        activeCount (runTabOps (ops @ [SetActive tid])) = 1)"
proof -
  have i: "tabInv (runTabOps ops)" by (rule tabInv_run)
  then have d: "distinct (map fst (tabRegistry (runTabOps ops)))" by (simp add: tabInv_def)
  have r: "\<And>x. runTabOps (ops @ [x]) = applyTabOp (runTabOps ops) x"
    by (simp add: runTabOps_def)
  show ?thesis using i d
    by (simp add: r tabInv_def updateTab_active_eq activeCount_setActiveTab_eq)
qed

text \<open>The statement of C1 at three concrete runs.\<close>

theorem C1_at_most_one_active_witness:
  "activeCount (runTabOps [Upsert (onlyId ''a''), SetActive ''a'', Remove ''b'']) \<le> 1
   \<and> activeCount (runTabOps ([Upsert (onlyId ''a'')] @ [Upsert ((onlyId ''b'')\<lparr>p_active := Some True\<rparr>)])) = 1
   \<and> activeCount (runTabOps ([Upsert (onlyId ''a'')] @ [SetActive ''a''])) = 1"
  using C1_at_most_one_active [of "[Upsert (onlyId ''a''), SetActive ''a'', Remove ''b'']"]
    C1_at_most_one_active [of "[Upsert (onlyId ''a'')]" "(onlyId ''b'')\<lparr>p_active := Some True\<rparr>"]
    C1_at_most_one_active [of "[Upsert (onlyId ''a'')]" _ "''a''"]
  by (simp add: onlyId_def runTabOps_def emptyTabState_def updateTab_def newTab_def strOr_def)

text \<open>
  Claim C1 as stated (exactly one active tab once a tab exists) fails: a tab that the
  renderer reports without the active mark is stored inactive, so the registry then holds one
  tab and no active one.
\<close>

theorem C1_exactly_one_counterexample:
  "tabRegistry (runTabOps [Upsert (onlyId ''a'')]) \<noteq> []
   \<and> activeCount (runTabOps [Upsert (onlyId ''a'')]) \<noteq> 1"
  by (simp add: runTabOps_def emptyTabState_def updateTab_def newTab_def onlyId_def
      activeCount_def strOr_def)

text \<open>
  Claim C8: for every registry state, after \<^verbatim>\<open>removeTab\<close> the \<open>index\<close> fields of the
  remaining records are 0, 1, ..., N-1 in registry order, and an \<^verbatim>\<open>updateTab\<close> with an
  identifier that is not in the registry then stores a record with index N, so that the
  indices are 0, ..., N.
\<close>

theorem C8_dense_indices:
  "indices (removeTab tid s) = map int [0 ..< length (tabRegistry (removeTab tid s))]
   \<and> (map_of (tabRegistry (removeTab tid s)) (p_id t) = None \<longrightarrow>
        indices (updateTab t (removeTab tid s))
          = map int [0 ..< Suc (length (tabRegistry (removeTab tid s)))]
        \<and> length (tabRegistry (updateTab t (removeTab tid s)))
          = Suc (length (tabRegistry (removeTab tid s))))"
proof -
  have a: "indices (removeTab tid s) = map int [0 ..< length (tabRegistry (removeTab tid s))]"
    using indices_reindex [of 0] by (simp add: indices_def removeTab_def Let_def length_reindex)
  have b: "indices (updateTab t r) = indices r @ [int (length (tabRegistry r))]
           \<and> length (tabRegistry (updateTab t r)) = Suc (length (tabRegistry r))"
    if "map_of (tabRegistry r) (p_id t) = None" for r
    using that
    by (auto simp: indices_def updateTab_def Let_def newTab_def comp_def case_prod_unfold)
  show ?thesis using a b [of "removeTab tid s"] by simp
qed

text \<open>The statement of C8 on a registry of three tabs.\<close>

theorem C8_dense_indices_witness:
  "indices (removeTab ''a'' (runTabOps [Upsert (onlyId ''a''), Upsert (onlyId ''b''), Upsert (onlyId ''c'')]))
     = [0, 1]
   \<and> indices (updateTab (onlyId ''d'')
        (removeTab ''a'' (runTabOps [Upsert (onlyId ''a''), Upsert (onlyId ''b''), Upsert (onlyId ''c'')])))
     = [0, 1, 2]"
  using C8_dense_indices [of "''a''"
      "runTabOps [Upsert (onlyId ''a''), Upsert (onlyId ''b''), Upsert (onlyId ''c'')]" "onlyId ''d''"]
  by (simp add: onlyId_def runTabOps_def emptyTabState_def updateTab_def newTab_def strOr_def
      removeTab_def indices_def)

text \<open>
  Claim C10 (every record has \<open>incognito = false\<close> at all times) at the input where the
  code departs from it: \<^verbatim>\<open>updateTab\<close> on a known identifier copies an incoming
  \<open>incognito\<close> property into the record (first run), whereas the branch for an unknown
  identifier stores \<open>false\<close> whatever the incoming record says (second run).
\<close>

theorem C10_incognito_overwritten:
  "map (\<lambda>(k, tab). incognito tab)
     (tabRegistry (runTabOps [Upsert (onlyId ''a''), Upsert ((onlyId ''a'')\<lparr>p_incognito := Some True\<rparr>)]))
   = [True]
   \<and> map (\<lambda>(k, tab). incognito tab)
       (tabRegistry (runTabOps [Upsert ((onlyId ''a'')\<lparr>p_incognito := Some True\<rparr>)]))
     = [False]"
  by (simp add: runTabOps_def emptyTabState_def updateTab_def newTab_def onlyId_def assign_def strOr_def)


section \<open>Match patterns: proofs\<close>

lemma all_urls_matches:
  "''<all_urls>'' \<in> set patterns \<Longrightarrow> matchesUrlPattern pf u patterns"
  by (induction patterns) auto

text \<open>What \<open>known pf\<close> answers on the fragments.\<close>

lemma known_newURL: "plainURL u = Some parsed \<Longrightarrow> newURL (known pf) u = Some parsed"
  by (simp add: known_def)

lemma known_regExpTest:
  "plainRegExpTest src s = Some b \<Longrightarrow> regExpTest (known pf) src s = Some b"
  by (simp add: known_def)

lemma known_toNumber: "digitsNumber s = Some n \<Longrightarrow> toNumber (known pf) s = n"
  by (simp add: known_def)

lemma known_numberToString: "naturalToString n = Some s \<Longrightarrow> numberToString (known pf) n = s"
  by (simp add: known_def)

lemma example_pattern:
  "patternMatch ''*://*.example.com/*'' = Some (''*'', ''*.example.com'', ''*'')"
  by code_simp

lemma subdomain_url:
  "plainURL ''https://sub.example.com/path''
     = Some \<lparr>protocol = ''https:'', hostname = ''sub.example.com'', pathname = ''/path'',
             search = []\<rparr>"
  by code_simp

lemma other_domain_url:
  "plainURL ''https://example.org''
     = Some \<lparr>protocol = ''https:'', hostname = ''example.org'', pathname = ''/'', search = []\<rparr>"
  by code_simp

lemma any_path_regexp: "plainRegExpTest ''^/.*$'' ''/path'' = Some True"
  by code_simp

lemma subdomain_suffix: "suffix ''.example.com'' ''sub.example.com''"
  by code_simp

lemma other_domain_suffix: "\<not> suffix ''.example.com'' ''example.org''"
  by code_simp

lemma subdomain_matches:
  "matchesUrlPattern (known pf) ''https://sub.example.com/path'' [''*://*.example.com/*'']"
  by (simp add: patternMatchesUrl_def example_pattern known_newURL [OF subdomain_url]
      known_regExpTest [OF any_path_regexp] starToDotStar_def subdomain_suffix)

lemma other_domain_no_match:
  "\<not> matchesUrlPattern (known pf) ''https://example.org'' [''*://*.example.com/*'']"
  by (simp add: patternMatchesUrl_def example_pattern known_newURL [OF other_domain_url]
      starToDotStar_def other_domain_suffix)

text \<open>
  Claim C3: \<^verbatim>\<open>matchesUrlPattern\<close> answers true whenever the patterns contain
  \<^verbatim>\<open><all_urls>\<close>, whatever the URL string, the other patterns and the platform are; on every
  platform that parses plain URLs and tests regular expressions as the standards say, it
  answers true for \<^verbatim>\<open>https://sub.example.com/path\<close> and false for \<^verbatim>\<open>https://example.org\<close>
  against \<^verbatim>\<open>*://*.example.com/*\<close>; and it answers false on the empty list of patterns.
\<close>

theorem C3_matches:
  "(''<all_urls>'' \<in> set patterns \<longrightarrow> matchesUrlPattern pf u patterns)
   \<and> matchesUrlPattern (known pf) ''https://sub.example.com/path'' [''*://*.example.com/*'']
   \<and> \<not> matchesUrlPattern (known pf) ''https://example.org'' [''*://*.example.com/*'']
   \<and> \<not> matchesUrlPattern pf u []"
proof -
  have "\<not> matchesUrlPattern pf u []" by simp
  then show ?thesis
    using all_urls_matches [of patterns pf u] subdomain_matches [of pf]
      other_domain_no_match [of pf]
    by blast
qed

text \<open>
  The statement of C3 at \<^verbatim>\<open>https://example.org\<close>: the list with \<^verbatim>\<open><all_urls>\<close> in it
  matches, although the pattern before \<^verbatim>\<open><all_urls>\<close> does not.
\<close>

theorem C3_matches_witness:
  "matchesUrlPattern (known elsewhere) ''https://example.org''
     [''*://*.example.com/*'', ''<all_urls>'']
   \<and> \<not> matchesUrlPattern (known elsewhere) ''https://example.org'' [''*://*.example.com/*'']"
proof -
  have "''<all_urls>'' \<in> set [''*://*.example.com/*'', ''<all_urls>'']" by simp
  then show ?thesis
    using C3_matches [of "[''*://*.example.com/*'', ''<all_urls>'']" "known elsewhere"
        "''https://example.org''"]
      C3_matches [of "[]" elsewhere "''https://example.org''"]
    by blast
qed


section \<open>Icons: proofs\<close>

lemma size_128: "digitsNumber ''128'' = Some (Finite 128)"
  by code_simp

lemma size_016: "digitsNumber ''016'' = Some (Finite 16)"
  by code_simp

lemma text_128: "naturalToString (Finite 128) = Some ''128''"
  by code_simp

lemma text_16: "naturalToString (Finite 16) = Some ''16''"
  by code_simp

lemma number_icon_throws:
  "resolveExtensionIcon (known pf) fs extPath numberIconManifest = Inl TypeError"
  by (simp add: resolveExtensionIcon_def numberIconManifest_def emptyManifest_def
      sortDescending_def ownProperty_def known_toNumber [OF size_128]
      known_numberToString [OF text_128])

lemma padded_size_throws:
  "resolveExtensionIcon (known pf) fs extPath
     (paddedSizeManifest\<lparr>content_scripts := bs\<rparr>) = Inl TypeError"
  by (simp add: resolveExtensionIcon_def paddedSizeManifest_def emptyManifest_def
      sortDescending_def ownProperty_def known_toNumber [OF size_016]
      known_numberToString [OF text_16])

text \<open>
  Claim C9 (icon derivation never throws and answers the empty string on any failure) at
  two inputs where the code departs from it: with an icon entry that is not a string, and
  with a size key that \<^verbatim>\<open>Number\<close> and \<^verbatim>\<open>toString\<close> do not give back as written, the value
  of \<^verbatim>\<open>iconRelPath\<close> is a number or undefined and \<^verbatim>\<open>iconRelPath.startsWith\<close> throws,
  outside the \<^verbatim>\<open>try\<close> block that turns the failures of the file system into the empty
  string. This is so on every platform on which \<^verbatim>\<open>Number\<close> reads \<open>128\<close> and \<open>016\<close> as 128
  and 16 and \<^verbatim>\<open>toString\<close> writes these as \<open>128\<close> and \<open>16\<close>.
\<close>

theorem C9_icon_throws:
  "resolveExtensionIcon (known pf) fs extPath numberIconManifest = Inl TypeError
   \<and> resolveExtensionIcon (known pf) fs extPath paddedSizeManifest = Inl TypeError"
  using number_icon_throws [of pf fs extPath]
    padded_size_throws [of pf fs extPath "content_scripts paddedSizeManifest"]
  by simp


section \<open>Content scripts: proofs\<close>





















section \<open>Storage: proofs\<close>






















text \<open>The paths and the texts of the examples.\<close>

lemma storage_paths:
  "pathJoin [''/data/extensions'', ''aaaa'', ''_solarium_storage.json'']
     = ''/data/extensions/aaaa/_solarium_storage.json''"
  "pathJoin [''/data/extensions'', ''aaaa/.'', ''_solarium_storage.json'']
     = ''/data/extensions/aaaa/_solarium_storage.json''"
  "pathJoin [''/data/extensions'', ''ext-A'', ''_solarium_storage.json'']
     = ''/data/extensions/ext-A/_solarium_storage.json''"
  "pathJoin [''/data/extensions'', ''ext-B'', ''_solarium_storage.json'']
     = ''/data/extensions/ext-B/_solarium_storage.json''"
  "pathJoin [''/data/extensions'', ''abcdefghijklmnop'', ''_solarium_storage.json'']
     = ''/data/extensions/abcdefghijklmnop/_solarium_storage.json''"
  by code_simp+


lemma empty_document:
  "loadStorage (plainObjects lang) eid emptyManager
     = (JObj [], False, emptyManager\<lparr>extensionStorage := [eid \<mapsto> JObj []]\<rparr>)"
  by (simp add: loadStorage_def emptyManager_def existsSync_def plainObjects_def Let_def)

text \<open>
  \<^verbatim>\<open>loadStorage\<close> caches and returns what \<^verbatim>\<open>JSON.parse\<close> gives, whatever it is: on a
  storage file that holds \<^verbatim>\<open>null\<close> the document is \<^verbatim>\<open>null\<close>, \<^verbatim>\<open>storageGet\<close> throws for a
  key and for an array of keys, and \<^verbatim>\<open>storageSet\<close> throws and saves nothing.
\<close>

lemma null_document:
  "loadStorage (plainObjects lang) ''ext-B'' nullFileState
     = (JNull, True, nullFileState\<lparr>extensionStorage := [''ext-B'' \<mapsto> JNull]\<rparr>)"
  by (simp add: loadStorage_def nullFileState_def emptyManager_def getStoragePath_def
      storage_paths existsSync_def readFileSync_def plainObjects_def plainParse_def Let_def)

lemma null_document_throws:
  "fst (storageGet (plainObjects lang) ''ext-B'' (KString ''k'') nullFileState) = None"
  "fst (storageGet (plainObjects lang) ''ext-B'' (KArray [''k'']) nullFileState) = None"
  "storageSet (plainObjects lang) ''ext-B'' (JObj [(''k'', JStr ''x'')]) nullFileState
     = (False, nullFileState\<lparr>extensionStorage := [''ext-B'' \<mapsto> JNull]\<rparr>)"
  unfolding storageGet_def storageSet_def null_document
  by (simp_all add: plainObjects_def plainGet_def plainHas_def plainAssign_def)

text \<open>
  Claim C4 (for an array of keys \<^verbatim>\<open>storageGet\<close> returns only the keys present in the
  document; for a single key the value is undefined when the key is absent; for an object
  of defaults the default is substituted when the key is absent) at inputs where the code
  departs from it. The document of an extension that has stored nothing is empty:
  \<^verbatim>\<open>storageGet\<close> returns \<^verbatim>\<open>{}\<close> for it when \<open>keys\<close> is null. The key \<open>toString\<close> is absent
  from it, and \<^verbatim>\<open>key in storage\<close> and \<^verbatim>\<open>storage[key]\<close> find the function of that name that
  every object inherits: for the key \<open>toString\<close>, for the array with that key and for the
  object that gives it a default, \<^verbatim>\<open>storageGet\<close> returns an object with the inherited
  function under \<open>toString\<close>, and neither \<^verbatim>\<open>{toString: undefined}\<close>, nor \<^verbatim>\<open>{}\<close>, nor the
  default. This is so in every language that treats plain objects as the standard says.
\<close>

theorem C4_inherited_names_found:
  "fst (storageGet (plainObjects lang) eid KNull emptyManager) = Some (JObj [])
   \<and> fst (storageGet (plainObjects lang) eid (KString ''toString'') emptyManager)
       = Some (JObj [(''toString'', JNative ''toString'')])
   \<and> fst (storageGet (plainObjects lang) eid (KArray [''toString'']) emptyManager)
       = Some (JObj [(''toString'', JNative ''toString'')])
   \<and> fst (storageGet (plainObjects lang) eid
            (KObject (JObj [(''toString'', JStr ''fallback'')])) emptyManager)
       = Some (JObj [(''toString'', JNative ''toString'')])"
  unfolding storageGet_def empty_document
  by (simp add: plainObjects_def plainSpread_def plainGet_def plainHas_def plainSet_def
      plainEntries_def objectPrototypeNames_def ordinaryKey_def)





section \<open>Removing an extension: proofs\<close>

text \<open>
  Claim C2, as the code has it: when the host's removal throws, the handler of
  \<^verbatim>\<open>extension:remove\<close> returns the failure with the message of the error and leaves the
  storage cache and the storage file as they were; when the host's removal returns and the
  file can be deleted, the handler returns success, the document is evicted from the cache
  and the storage file is gone.
\<close>

theorem C2_cleanup_after_host_success:
  "(hostRemove eid = Some message \<longrightarrow>
      extensionRemove hostRemove eid st = (RemoveFailed message, st))
   \<and> (hostRemove eid = None \<and> ioError st (getStoragePath st eid) = None \<longrightarrow>
        fst (extensionRemove hostRemove eid st) = RemoveSucceeded
        \<and> extensionStorage (snd (extensionRemove hostRemove eid st)) eid = None
        \<and> disk (snd (extensionRemove hostRemove eid st)) (getStoragePath st eid) = None)"
  by (auto simp: extensionRemove_def Let_def getStoragePath_def existsSync_def)

text \<open>
  The statement of C2 on the state with a cached document and a storage file.
\<close>

theorem C2_cleanup_after_host_success_witness:
  "extensionRemove rejectingHost ''abcdefghijklmnop'' installedState
     = (RemoveFailed ''removal rejected'', installedState)
   \<and> fst (extensionRemove acceptingHost ''abcdefghijklmnop'' installedState) = RemoveSucceeded
   \<and> extensionStorage (snd (extensionRemove acceptingHost ''abcdefghijklmnop'' installedState))
        ''abcdefghijklmnop'' = None
   \<and> disk (snd (extensionRemove acceptingHost ''abcdefghijklmnop'' installedState))
        ''/data/extensions/abcdefghijklmnop/_solarium_storage.json'' = None"
proof -
  have p: "getStoragePath installedState ''abcdefghijklmnop''
          = ''/data/extensions/abcdefghijklmnop/_solarium_storage.json''"
    by (simp add: getStoragePath_def storage_paths installedState_def emptyManager_def)
  have e: "ioError installedState (getStoragePath installedState ''abcdefghijklmnop'') = None"
    by (simp add: installedState_def emptyManager_def)
  have r: "rejectingHost ''abcdefghijklmnop'' = Some ''removal rejected''"
    by (simp add: rejectingHost_def)
  have a: "acceptingHost ''abcdefghijklmnop'' = None" by (simp add: acceptingHost_def)
  show ?thesis
    using C2_cleanup_after_host_success [of rejectingHost "''abcdefghijklmnop''"
        "''removal rejected''" installedState]
      C2_cleanup_after_host_success [of acceptingHost "''abcdefghijklmnop''" _ installedState]
      r a e
    by (simp add: p)
qed

text \<open>
  Claim C2 as stated (the cleanup is still performed when the host's removal throws) fails:
  the handler returns the failure, and the cached document and the storage file are still
  there.
\<close>

theorem C2_cleanup_skipped_counterexample:
  "fst (extensionRemove rejectingHost ''abcdefghijklmnop'' installedState)
     = RemoveFailed ''removal rejected''
   \<and> extensionStorage (snd (extensionRemove rejectingHost ''abcdefghijklmnop'' installedState))
        ''abcdefghijklmnop'' = Some (JObj [(''a'', JNum 1)])
   \<and> disk (snd (extensionRemove rejectingHost ''abcdefghijklmnop'' installedState))
        (getStoragePath installedState ''abcdefghijklmnop'') = Some (Content ''{}'')"
  by (simp add: extensionRemove_def rejectingHost_def installedState_def emptyManager_def
      getStoragePath_def storage_paths)


section \<open>Installing a downloaded archive: proofs\<close>

lemma firstOffset_None: "firstOffset value buf = None \<longleftrightarrow> \<not> sublist value buf"
  by (induction buf) (auto simp: sublist_Cons_right)

lemma no_magic_whole_buffer:
  assumes "\<not> sublist zipMagic fileBuf"
  shows "indexOf fileBuf zipMagic = - 1"
  using assms by (simp add: indexOf_def firstOffset_None [symmetric])

text \<open>
  Claim C7, as the code has it: when the local-file-header signature \<open>50 4B 03 04\<close> does
  not occur in the downloaded bytes, the installer hands the whole byte sequence, unchanged,
  to the archive library; the installation is logged as failed exactly when unpacking, the
  host's load or the removal of the temporary file throws, and it completes when they
  return. No error of its own stands for the missing signature.
\<close>

theorem C7_no_magic_whole_file:
  assumes "\<not> sublist zipMagic fileBuf"
  shows "take 1 (crxDownloadDone host True (Some fileBuf)) = [ExtractAll fileBuf]
         \<and> (LogInstallFailed \<in> set (crxDownloadDone host True (Some fileBuf))
              \<longleftrightarrow> \<not> unpack host fileBuf \<or> loadExtension host = None \<or> \<not> unlinkTemp host)
         \<and> (unpack host fileBuf \<and> loadExtension host = Some extName \<and> unlinkTemp host
              \<longrightarrow> crxDownloadDone host True (Some fileBuf)
                    = [ExtractAll fileBuf, LoadExtension, NotifyInstalled extName, UnlinkTemp])"
  using no_magic_whole_buffer [OF assms]
  by (auto simp: crxDownloadDone_def Let_def split: option.splits)

lemma emptyArchive_no_magic: "\<not> sublist zipMagic emptyArchive"
proof -
  have "firstOffset zipMagic emptyArchive = None" by code_simp
  then show ?thesis by (simp add: firstOffset_None)
qed

text \<open>
  The statement of C7 at four bytes without the signature, which the archive library
  rejects.
\<close>

theorem C7_no_magic_whole_file_witness:
  "take 1 (crxDownloadDone reinstallHost True (Some [0x43, 0x72, 0x32, 0x34]))
     = [ExtractAll [0x43, 0x72, 0x32, 0x34]]
   \<and> LogInstallFailed \<in> set (crxDownloadDone reinstallHost True (Some [0x43, 0x72, 0x32, 0x34]))"
proof -
  have h: "\<not> sublist zipMagic [0x43, 0x72, 0x32, 0x34 :: byte]"
    by (simp add: firstOffset_None [symmetric] zipMagic_def)
  have u: "\<not> unpack reinstallHost [0x43, 0x72, 0x32, 0x34]"
    by (simp add: reinstallHost_def emptyArchive_def)
  show ?thesis using C7_no_magic_whole_file [OF h, of reinstallHost] u by simp
qed

text \<open>
  Claim C7 as stated (an input without the signature fails and is not unpacked) fails: the
  archive without entries holds no local-file-header signature, is handed to the archive
  library as it is, and the installation completes.
\<close>

theorem C7_archive_corrupt_counterexample:
  "\<not> sublist zipMagic emptyArchive
   \<and> crxDownloadDone reinstallHost True (Some emptyArchive)
       = [ExtractAll emptyArchive, LoadExtension, NotifyInstalled ''Example'', UnlinkTemp]"
proof -
  have "indexOf emptyArchive zipMagic = - 1"
    using emptyArchive_no_magic by (rule no_magic_whole_buffer)
  then show ?thesis using emptyArchive_no_magic
    by (simp add: crxDownloadDone_def reinstallHost_def)
qed

end
